theory Spec2Isabelle
  imports Main
begin

section \<open>Data model (cmd/jellyfin-tui/main.go and the jellyfin client package)\<close>

text \<open>
  Go strings are byte sequences, so they are modelled by \<open>string\<close> (a list of 8-bit
  characters). An \<open>error\<close> value is represented by the text its \<open>Error()\<close> method
  returns; a nil error is \<open>None\<close> in an \<open>error option\<close>.
\<close>

datatype error = Error string

fun error_text :: "error \<Rightarrow> string" where
  "error_text (Error s) = s"

text \<open>\<open>fmt.Errorf(prefix + "%v", err)\<close>.\<close>

definition Errorf :: "string \<Rightarrow> error \<Rightarrow> error" where
  "Errorf prefix e = Error (prefix @ error_text e)"

record Config =
  ServerURL :: string
  APIKey :: string

text \<open>
  \<open>IndexNumber\<close> is a Go \<open>int\<close>. It is only copied and compared, never computed with,
  so it is modelled as an unbounded \<open>int\<close>.
\<close>

record MediaItem =
  ID :: string
  ItemTitle :: string
  Type :: string
  ImageURL :: string
  StreamURL :: string
  ParentID :: string
  IndexNumber :: int
  DisplayTitle :: string

text \<open>The zero value \<open>MediaItem{}\<close>.\<close>

definition MediaItem_zero :: MediaItem where
  "MediaItem_zero =
     \<lparr>ID = [], ItemTitle = [], Type = [], ImageURL = [], StreamURL = [], ParentID = [],
      IndexNumber = 0, DisplayTitle = []\<rparr>"

text \<open>
  \<open>jellyfin.MediaItem\<close>, the record decoded from the server's JSON. A field that the
  JSON object lacks keeps its zero value, so an episode without \<open>IndexNumber\<close> has
  \<open>jf_IndexNumber = 0\<close>.
\<close>

record jf_MediaItem =
  jf_ID :: string
  jf_Name :: string
  jf_Type :: string
  jf_MediaType :: string
  jf_ImageTags :: "(string \<times> string) list"
  jf_IndexNumber :: int

subsection \<open>The widgets of the terminal toolkit\<close>

text \<open>
  \<open>list.Model\<close> and \<open>textinput.Model\<close> belong to the bubbles library, not to this
  repository. The part of their state that the program reads and writes through their
  accessors is a record here; their \<open>Update\<close> and \<open>View\<close> methods are parameters
  (record \<open>toolkit\<close> below), so that every theorem holds for any key handling of the
  widgets.
\<close>

record list_Model =
  list_items :: "MediaItem list"
  list_index :: nat
  list_width :: int
  list_height :: int
  list_Title :: string

text \<open>\<open>list.New(items, delegate, 0, 0)\<close> followed by the assignment of \<open>Title\<close>.\<close>

definition list_New :: "MediaItem list \<Rightarrow> string \<Rightarrow> list_Model" where
  "list_New xs t =
     \<lparr>list_items = xs, list_index = 0, list_width = 0, list_height = 0, list_Title = t\<rparr>"

definition SetItems :: "MediaItem list \<Rightarrow> list_Model \<Rightarrow> list_Model" where
  "SetItems xs l = l\<lparr>list_items := xs\<rparr>"

definition Items :: "list_Model \<Rightarrow> MediaItem list" where
  "Items l = list_items l"

definition SetSize :: "int \<Rightarrow> int \<Rightarrow> list_Model \<Rightarrow> list_Model" where
  "SetSize w h l = l\<lparr>list_width := w, list_height := h\<rparr>"

text \<open>\<open>SelectedItem()\<close> is nil when the cursor is not on an item.\<close>

definition SelectedItem :: "list_Model \<Rightarrow> MediaItem option" where
  "SelectedItem l =
     (if list_index l < length (list_items l) then Some (list_items l ! list_index l)
      else None)"

record textinput_Model =
  ti_value :: string
  ti_focus :: bool
  ti_Placeholder :: string
  ti_Width :: int

definition textinput_New :: textinput_Model where
  "textinput_New = \<lparr>ti_value = [], ti_focus = False, ti_Placeholder = [], ti_Width = 0\<rparr>"

definition SetValue :: "string \<Rightarrow> textinput_Model \<Rightarrow> textinput_Model" where
  "SetValue s t = t\<lparr>ti_value := s\<rparr>"

definition Value :: "textinput_Model \<Rightarrow> string" where
  "Value t = ti_value t"

definition Focus :: "textinput_Model \<Rightarrow> textinput_Model" where
  "Focus t = t\<lparr>ti_focus := True\<rparr>"

definition Blur :: "textinput_Model \<Rightarrow> textinput_Model" where
  "Blur t = t\<lparr>ti_focus := False\<rparr>"

definition Focused :: "textinput_Model \<Rightarrow> bool" where
  "Focused t = ti_focus t"

subsection \<open>The application state\<close>

record Model =
  config :: Config
  currentView :: string
  mainList :: list_Model
  moviesList :: list_Model
  tvShowsList :: list_Model
  seasonsList :: list_Model
  episodesList :: list_Model
  searchInput :: textinput_Model
  searchList :: list_Model
  configInputs :: "textinput_Model list"
  currentItem :: MediaItem
  err :: "error option"

subsection \<open>Messages and commands\<close>

text \<open>
  A \<open>tea.KeyMsg\<close> is represented by the value of its \<open>String()\<close> method, the only
  thing \<open>Update\<close> reads from it. \<open>errorMsg\<close> is an interface type, so the case
  \<open>errorMsg\<close> of the type switch receives a non-nil error. \<open>NilMsg\<close> is the nil
  message and \<open>OtherMsg\<close> any message of the toolkit itself.
\<close>

datatype msg =
    KeyMsg string
  | WindowSizeMsg int int
  | fetchMoviesMsg "MediaItem list"
  | fetchTVShowsMsg "MediaItem list"
  | fetchSeasonsMsg "MediaItem list"
  | fetchEpisodesMsg "MediaItem list"
  | searchResultsMsg "MediaItem list"
  | errorMsg error
  | NilMsg
  | OtherMsg nat

text \<open>
  A \<open>tea.Cmd\<close> is a closure run in the background. The closures the program builds are
  the constructors of \<open>cmd\<close>, each holding the values its closure captures; the body of
  each closure is a function of section \<open>Commands\<close>. \<open>ToolkitCmd\<close> is a command
  returned by a widget; a nil command is \<open>None\<close> in a \<open>cmd option\<close>.
\<close>

datatype cmd =
    Quit
  | FetchMovies Config
  | FetchTVShows Config
  | FetchSeasons Config string
  | FetchEpisodes Config string
  | SearchMedia Config string
  | PlayMedia MediaItem
  | ToolkitCmd nat

record toolkit =
  list_Update :: "msg \<Rightarrow> list_Model \<Rightarrow> list_Model \<times> cmd option"
  textinput_Update :: "msg \<Rightarrow> textinput_Model \<Rightarrow> textinput_Model \<times> cmd option"
  list_View :: "list_Model \<Rightarrow> string"
  textinput_View :: "textinput_Model \<Rightarrow> string"
  GetFrameSize :: "int \<times> int"

subsection \<open>The operating system and the libraries doing I/O\<close>

text \<open>
  The file system as \<open>loadConfig\<close> and \<open>saveConfig\<close> see it: the home directory
  (\<open>None\<close> when \<open>os.UserHomeDir\<close> fails), the directories and the regular files that
  exist, and the paths on which the system refuses every access.
\<close>

record filesystem =
  home :: "string option"
  dirs :: "string set"
  files :: "string \<rightharpoonup> string"
  denied :: "string set"

record http_Response =
  StatusCode :: nat
  Status :: string
  Body :: "error + string"

text \<open>
  The standard library and the network, as parameters: the JSON codec of
  \<open>encoding/json\<close> at the two types the program uses it at, one HTTP GET, the query
  escaping of \<open>net/url\<close>, and the start of the player process.
\<close>

record world =
  json_MarshalIndent :: "Config \<Rightarrow> error + string"
  json_Unmarshal_Config :: "string \<Rightarrow> error + Config"
  http_Get :: "string \<Rightarrow> error + http_Response"
  json_Unmarshal_Items :: "string \<Rightarrow> error + jf_MediaItem list"
  url_QueryEscape :: "string \<Rightarrow> string"
  exec_Start :: "string \<Rightarrow> string list \<Rightarrow> error option"

definition os_UserHomeDir :: "filesystem \<Rightarrow> error + string" where
  "os_UserHomeDir fs =
     (case home fs of None \<Rightarrow> Inl (Error ''$HOME is not defined'') | Some h \<Rightarrow> Inr h)"

text \<open>
  \<open>filepath.Join\<close> joins the non-empty elements with the separator. (Its final
  normalisation of the path is not modelled; both functions build the path the same way.)
\<close>

fun join_sep :: "string list \<Rightarrow> string" where
  "join_sep [] = []"
| "join_sep [x] = x"
| "join_sep (x # y # ys) = x @ ''/'' @ join_sep (y # ys)"

definition filepath_Join :: "string list \<Rightarrow> string" where
  "filepath_Join elems = join_sep (filter (\<lambda>e. e \<noteq> []) elems)"

definition os_MkdirAll :: "string \<Rightarrow> filesystem \<Rightarrow> error + filesystem" where
  "os_MkdirAll p fs =
     (if p \<in> dirs fs then Inr fs
      else if p \<in> denied fs then Inl (Error (''mkdir '' @ p @ '': permission denied''))
      else if files fs p \<noteq> None then Inl (Error (''mkdir '' @ p @ '': not a directory''))
      else Inr (fs\<lparr>dirs := insert p (dirs fs)\<rparr>))"

definition os_WriteFile :: "string \<Rightarrow> string \<Rightarrow> filesystem \<Rightarrow> error + filesystem" where
  "os_WriteFile p d fs =
     (if p \<in> denied fs then Inl (Error (''open '' @ p @ '': permission denied''))
      else if p \<in> dirs fs then Inl (Error (''open '' @ p @ '': is a directory''))
      else Inr (fs\<lparr>files := (files fs)(p \<mapsto> d)\<rparr>))"

text \<open>\<open>os.IsNotExist\<close> of the error of \<open>os.Stat\<close>.\<close>

definition os_Stat_IsNotExist :: "string \<Rightarrow> filesystem \<Rightarrow> bool" where
  "os_Stat_IsNotExist p fs = (p \<notin> denied fs \<and> p \<notin> dirs fs \<and> files fs p = None)"

definition os_ReadFile :: "string \<Rightarrow> filesystem \<Rightarrow> error + string" where
  "os_ReadFile p fs =
     (if p \<in> denied fs then Inl (Error (''open '' @ p @ '': permission denied''))
      else if p \<in> dirs fs then Inl (Error (''read '' @ p @ '': is a directory''))
      else case files fs p of
             None \<Rightarrow> Inl (Error (''open '' @ p @ '': no such file or directory''))
           | Some d \<Rightarrow> Inr d)"

section \<open>Session configuration\<close>

definition loadConfig :: "world \<Rightarrow> filesystem \<Rightarrow> error + Config" where
  "loadConfig w fs =
     (case os_UserHomeDir fs of
        Inl e \<Rightarrow> Inl (Errorf ''failed to get home directory: '' e)
      | Inr homeDir \<Rightarrow>
          let configDir = filepath_Join [homeDir, ''.config'', ''jellyfin-tui''];
              configFile = filepath_Join [configDir, ''config'']
          in if os_Stat_IsNotExist configFile fs
             then Inl (Error ''config file does not exist'')
             else (case os_ReadFile configFile fs of
                     Inl e \<Rightarrow> Inl (Errorf ''failed to read config file: '' e)
                   | Inr data \<Rightarrow>
                       (case json_Unmarshal_Config w data of
                          Inl e \<Rightarrow> Inl (Errorf ''failed to parse config file: '' e)
                        | Inr cfg \<Rightarrow> Inr cfg)))"

text \<open>The result is the returned error (\<open>None\<close> for nil) and the file system left behind.\<close>

definition saveConfig :: "world \<Rightarrow> Config \<Rightarrow> filesystem \<Rightarrow> error option \<times> filesystem" where
  "saveConfig w cfg fs =
     (case os_UserHomeDir fs of
        Inl e \<Rightarrow> (Some (Errorf ''failed to get home directory: '' e), fs)
      | Inr homeDir \<Rightarrow>
          let configDir = filepath_Join [homeDir, ''.config'', ''jellyfin-tui'']
          in (case os_MkdirAll configDir fs of
                Inl e \<Rightarrow> (Some (Errorf ''failed to create config directory: '' e), fs)
              | Inr fs1 \<Rightarrow>
                  let configFile = filepath_Join [configDir, ''config'']
                  in (case json_MarshalIndent w cfg of
                        Inl e \<Rightarrow> (Some (Errorf ''failed to marshal config: '' e), fs1)
                      | Inr data \<Rightarrow>
                          (case os_WriteFile configFile data fs1 of
                             Inl e \<Rightarrow> (Some (Errorf ''failed to write config file: '' e), fs1)
                           | Inr fs2 \<Rightarrow> (None, fs2)))))"

section \<open>The initial model\<close>

definition mainItems :: "MediaItem list" where
  "mainItems =
     [MediaItem_zero\<lparr>ItemTitle := ''Movies'', Type := ''category''\<rparr>,
      MediaItem_zero\<lparr>ItemTitle := ''TV Shows'', Type := ''category''\<rparr>,
      MediaItem_zero\<lparr>ItemTitle := ''Search'', Type := ''action''\<rparr>,
      MediaItem_zero\<lparr>ItemTitle := ''Configure'', Type := ''action''\<rparr>]"

definition defaultConfig :: Config where
  "defaultConfig =
     \<lparr>ServerURL = ''https://jellyfin.example.com'', APIKey = ''your_api_key_here''\<rparr>"

definition initialModel :: "world \<Rightarrow> filesystem \<Rightarrow> Model \<times> filesystem" where
  "initialModel w fs =
     (let (cfg, fs') =
            (case loadConfig w fs of
               Inl e \<Rightarrow> (defaultConfig, snd (saveConfig w defaultConfig fs))
             | Inr c \<Rightarrow> (c, fs));
          searchInput0 =
            Focus (textinput_New\<lparr>ti_Placeholder := ''Search for movies and TV shows...''\<rparr>);
          serverInput =
            SetValue (ServerURL cfg)
              ((Focus (textinput_New\<lparr>ti_Placeholder := ''Jellyfin Server URL''\<rparr>))
                 \<lparr>ti_Width := 40\<rparr>);
          apiKeyInput =
            SetValue (APIKey cfg)
              (textinput_New\<lparr>ti_Placeholder := ''Jellyfin API Key'', ti_Width := 40\<rparr>)
      in (\<lparr>config = cfg,
           currentView = ''main'',
           mainList = list_New mainItems ''Jellyfin TUI'',
           moviesList = list_New [] ''Movies'',
           tvShowsList = list_New [] ''TV Shows'',
           seasonsList = list_New [] ''Seasons'',
           episodesList = list_New [] ''Episodes'',
           searchInput = searchInput0,
           searchList = list_New [] ''Search Results'',
           configInputs = [serverInput, apiKeyInput],
           currentItem = MediaItem_zero,
           err = None\<rparr>, fs'))"

section \<open>Update\<close>

text \<open>
  Indexing \<open>m.configInputs\<close> beyond its length panics; \<open>Update\<close> returns \<open>Inl\<close> of
  the panic then, and otherwise the new model, the command and the file system.
\<close>

datatype panic = IndexOutOfRange

text \<open>\<open>keyMsg, ok := msg.(tea.KeyMsg); ok && keyMsg.String() == "enter"\<close>.\<close>

definition isEnter :: "msg \<Rightarrow> bool" where
  "isEnter msg = (case msg of KeyMsg k \<Rightarrow> k = ''enter'' | _ \<Rightarrow> False)"

text \<open>Case \<open>"main"\<close> of the switch on \<open>m.currentView\<close>.\<close>

definition updateMain :: "toolkit \<Rightarrow> msg \<Rightarrow> Model \<Rightarrow> panic + (Model \<times> cmd option)" where
  "updateMain tk msg m0 =
     (let (l, c) = list_Update tk msg (mainList m0);
          m = m0\<lparr>mainList := l\<rparr>
      in if isEnter msg then
           (case SelectedItem (mainList m) of
              None \<Rightarrow> Inr (m, c)
            | Some selectedItem \<Rightarrow>
                if ItemTitle selectedItem = ''Movies'' then
                  Inr (m\<lparr>currentView := ''movies''\<rparr>, Some (FetchMovies (config m)))
                else if ItemTitle selectedItem = ''TV Shows'' then
                  Inr (m\<lparr>currentView := ''tvshows''\<rparr>, Some (FetchTVShows (config m)))
                else if ItemTitle selectedItem = ''Search'' then
                  Inr (m\<lparr>currentView := ''search'',
                          searchInput := SetValue [] (searchInput m)\<rparr>, None)
                else if ItemTitle selectedItem = ''Configure'' then
                  (if length (configInputs m) < 2 then Inl IndexOutOfRange
                   else
                     Inr (m\<lparr>currentView := ''config'',
                             configInputs :=
                               (configInputs m)
                                 [0 := Focus (SetValue (ServerURL (config m)) (configInputs m ! 0)),
                                  1 := SetValue (APIKey (config m)) (configInputs m ! 1)]\<rparr>,
                          None))
                else Inr (m, c))
         else Inr (m, c))"

text \<open>Case \<open>"movies", "tvshows"\<close>: \<open>list\<close> points to one of the two list fields.\<close>

definition updateLibrary :: "toolkit \<Rightarrow> msg \<Rightarrow> Model \<Rightarrow> panic + (Model \<times> cmd option)" where
  "updateLibrary tk msg m0 =
     (let (l, c) =
            list_Update tk msg
              (if currentView m0 = ''movies'' then moviesList m0 else tvShowsList m0);
          m = (if currentView m0 = ''movies'' then m0\<lparr>moviesList := l\<rparr>
               else m0\<lparr>tvShowsList := l\<rparr>)
      in if isEnter msg then
           (case SelectedItem l of
              None \<Rightarrow> Inr (m, c)
            | Some selectedItem \<Rightarrow>
                if ID selectedItem \<noteq> [] then
                  Inr (m\<lparr>currentItem := selectedItem, currentView := ''seasons''\<rparr>,
                       Some (FetchSeasons (config m) (ID selectedItem)))
                else Inr (m, c))
         else Inr (m, c))"

definition updateSeasons :: "toolkit \<Rightarrow> msg \<Rightarrow> Model \<Rightarrow> panic + (Model \<times> cmd option)" where
  "updateSeasons tk msg m0 =
     (let (l, c) = list_Update tk msg (seasonsList m0);
          m = m0\<lparr>seasonsList := l\<rparr>
      in if isEnter msg then
           (case SelectedItem (seasonsList m) of
              None \<Rightarrow> Inr (m, c)
            | Some selectedItem \<Rightarrow>
                if ID selectedItem \<noteq> [] then
                  Inr (m\<lparr>currentItem := selectedItem, currentView := ''episodes''\<rparr>,
                       Some (FetchEpisodes (config m) (ID selectedItem)))
                else Inr (m, c))
         else Inr (m, c))"

definition updateEpisodes :: "toolkit \<Rightarrow> msg \<Rightarrow> Model \<Rightarrow> panic + (Model \<times> cmd option)" where
  "updateEpisodes tk msg m0 =
     (let (l, c) = list_Update tk msg (episodesList m0);
          m = m0\<lparr>episodesList := l\<rparr>
      in if isEnter msg then
           (case SelectedItem (episodesList m) of
              None \<Rightarrow> Inr (m, c)
            | Some selectedItem \<Rightarrow>
                if ID selectedItem \<noteq> [] then Inr (m, Some (PlayMedia selectedItem))
                else Inr (m, c))
         else Inr (m, c))"

text \<open>
  Case \<open>"search"\<close>. The first \<open>if\<close> returns on enter with a non-empty query; on enter
  with an empty query neither branch touches the input and \<open>cmd\<close> is still nil.
\<close>

definition updateSearch :: "toolkit \<Rightarrow> msg \<Rightarrow> Model \<Rightarrow> panic + (Model \<times> cmd option)" where
  "updateSearch tk msg m0 =
     (if isEnter msg \<and> Value (searchInput m0) \<noteq> [] then
        Inr (m0, Some (SearchMedia (config m0) (Value (searchInput m0))))
      else
        let (m1, c1) =
              (if isEnter msg then (m0, None)
               else (let (t, c) = textinput_Update tk msg (searchInput m0)
                     in (m0\<lparr>searchInput := t\<rparr>, c)))
        in if length (Items (searchList m1)) > 0 then
             (let (l, c2) = list_Update tk msg (searchList m1);
                  m2 = m1\<lparr>searchList := l\<rparr>
              in if isEnter msg then
                   (case SelectedItem (searchList m2) of
                      None \<Rightarrow> Inr (m2, c2)
                    | Some selectedItem \<Rightarrow>
                        if ID selectedItem \<noteq> [] then Inr (m2, Some (PlayMedia selectedItem))
                        else Inr (m2, c2))
                 else Inr (m2, c2))
           else Inr (m1, c1))"

text \<open>The body shared by the cases \<open>"tab", "down"\<close> and \<open>"shift+tab", "up"\<close>.\<close>

definition toggleFocus :: "textinput_Model list \<Rightarrow> panic + textinput_Model list" where
  "toggleFocus ins =
     (if length ins < 2 then Inl IndexOutOfRange
      else if Focused (ins ! 0) then Inr (ins[0 := Blur (ins ! 0), 1 := Focus (ins ! 1)])
      else Inr (ins[0 := Focus (ins ! 0), 1 := Blur (ins ! 1)]))"

text \<open>
  The loop over \<open>m.configInputs\<close>: the first focused input handles the message, then
  \<open>break\<close>. With no focused input \<open>cmd\<close> stays nil.
\<close>

fun updateFocused ::
  "toolkit \<Rightarrow> msg \<Rightarrow> textinput_Model list \<Rightarrow> textinput_Model list \<times> cmd option" where
  "updateFocused tk msg [] = ([], None)"
| "updateFocused tk msg (t # ts) =
     (if Focused t then (let (t', c) = textinput_Update tk msg t in (t' # ts, c))
      else (let (ts', c) = updateFocused tk msg ts in (t # ts', c)))"

definition updateConfig ::
  "toolkit \<Rightarrow> world \<Rightarrow> msg \<Rightarrow> Model \<Rightarrow> filesystem
     \<Rightarrow> panic + (Model \<times> cmd option \<times> filesystem)" where
  "updateConfig tk w msg m fs =
     (let other = (let (ins, c) = updateFocused tk msg (configInputs m)
                   in Inr (m\<lparr>configInputs := ins\<rparr>, c, fs))
      in case msg of
           KeyMsg k \<Rightarrow>
             if k = ''tab'' \<or> k = ''down'' \<or> k = ''shift+tab'' \<or> k = ''up'' then
               (case toggleFocus (configInputs m) of
                  Inl p \<Rightarrow> Inl p
                | Inr ins \<Rightarrow> Inr (m\<lparr>configInputs := ins\<rparr>, None, fs))
             else if k = ''enter'' then
               (if length (configInputs m) < 2 then Inl IndexOutOfRange
                else
                  let newConfig = \<lparr>ServerURL = Value (configInputs m ! 0),
                                   APIKey = Value (configInputs m ! 1)\<rparr>
                  in (case saveConfig w newConfig fs of
                        (Some e, fs') \<Rightarrow> Inr (m\<lparr>err := Some e\<rparr>, None, fs')
                      | (None, fs') \<Rightarrow>
                          Inr (m\<lparr>config := newConfig, currentView := ''main''\<rparr>, None, fs')))
             else other
         | _ \<Rightarrow> other)"

text \<open>The switch on \<open>m.currentView\<close>; it has no default case.\<close>

definition withFs ::
  "filesystem \<Rightarrow> panic + (Model \<times> cmd option) \<Rightarrow> panic + (Model \<times> cmd option \<times> filesystem)"
  where
  "withFs fs r = (case r of Inl p \<Rightarrow> Inl p | Inr (m, c) \<Rightarrow> Inr (m, c, fs))"

definition updateView ::
  "toolkit \<Rightarrow> world \<Rightarrow> msg \<Rightarrow> Model \<Rightarrow> filesystem
     \<Rightarrow> panic + (Model \<times> cmd option \<times> filesystem)" where
  "updateView tk w msg m fs =
     (if currentView m = ''main'' then withFs fs (updateMain tk msg m)
      else if currentView m = ''movies'' \<or> currentView m = ''tvshows'' then
        withFs fs (updateLibrary tk msg m)
      else if currentView m = ''seasons'' then withFs fs (updateSeasons tk msg m)
      else if currentView m = ''episodes'' then withFs fs (updateEpisodes tk msg m)
      else if currentView m = ''search'' then withFs fs (updateSearch tk msg m)
      else if currentView m = ''config'' then updateConfig tk w msg m fs
      else Inr (m, None, fs))"

definition convertToListItems :: "MediaItem list \<Rightarrow> MediaItem list" where
  "convertToListItems xs = map (\<lambda>item. item) xs"

text \<open>Case \<open>tea.WindowSizeMsg\<close>: the six lists are resized, then the view handles the message.\<close>

definition resize :: "toolkit \<Rightarrow> int \<Rightarrow> int \<Rightarrow> Model \<Rightarrow> Model" where
  "resize tk wd ht m =
     (let (h, v) = GetFrameSize tk
      in m\<lparr>mainList := SetSize (wd - h) (ht - v) (mainList m),
           moviesList := SetSize (wd - h) (ht - v) (moviesList m),
           tvShowsList := SetSize (wd - h) (ht - v) (tvShowsList m),
           seasonsList := SetSize (wd - h) (ht - v) (seasonsList m),
           episodesList := SetSize (wd - h) (ht - v) (episodesList m),
           searchList := SetSize (wd - h) (ht - v) (searchList m)\<rparr>)"

definition Update ::
  "toolkit \<Rightarrow> world \<Rightarrow> msg \<Rightarrow> Model \<Rightarrow> filesystem
     \<Rightarrow> panic + (Model \<times> cmd option \<times> filesystem)" where
  "Update tk w msg m fs =
     (case msg of
        KeyMsg k \<Rightarrow>
          if k = ''ctrl+c'' \<or> k = ''q'' then Inr (m, Some Quit, fs)
          else if k = ''esc'' \<and> currentView m = ''episodes'' then
            Inr (m\<lparr>currentView := ''seasons''\<rparr>, None, fs)
          else if k = ''esc'' \<and> currentView m = ''seasons'' then
            Inr (m\<lparr>currentView := ''tvshows''\<rparr>, None, fs)
          else if k = ''esc'' \<and> (currentView m = ''movies'' \<or> currentView m = ''tvshows''
                                  \<or> currentView m = ''search'') then
            Inr (m\<lparr>currentView := ''main''\<rparr>, None, fs)
          else updateView tk w msg m fs
      | WindowSizeMsg wd ht \<Rightarrow> updateView tk w msg (resize tk wd ht m) fs
      | fetchMoviesMsg xs \<Rightarrow>
          Inr (m\<lparr>moviesList := SetItems (convertToListItems xs) (moviesList m)\<rparr>, None, fs)
      | fetchTVShowsMsg xs \<Rightarrow>
          Inr (m\<lparr>tvShowsList := SetItems (convertToListItems xs) (tvShowsList m)\<rparr>, None, fs)
      | fetchSeasonsMsg xs \<Rightarrow>
          Inr (m\<lparr>seasonsList := SetItems (convertToListItems xs) (seasonsList m)\<rparr>, None, fs)
      | fetchEpisodesMsg xs \<Rightarrow>
          Inr (m\<lparr>episodesList := SetItems (convertToListItems xs) (episodesList m)\<rparr>, None, fs)
      | searchResultsMsg xs \<Rightarrow>
          Inr (m\<lparr>searchList := SetItems (convertToListItems xs) (searchList m)\<rparr>, None, fs)
      | errorMsg e \<Rightarrow> Inr (m\<lparr>err := Some e\<rparr>, None, fs)
      | _ \<Rightarrow> updateView tk w msg m fs)"

section \<open>View\<close>

text \<open>The view \<open>"config"\<close> indexes \<open>m.configInputs\<close> and can panic like \<open>Update\<close>.\<close>

definition View :: "toolkit \<Rightarrow> Model \<Rightarrow> panic + string" where
  "View tk m =
     (case err m of
        Some e \<Rightarrow>
          Inr (''Error: '' @ error_text e @ [CHR 0x0A, CHR 0x0A] @ ''Press any key to exit.'')
      | None \<Rightarrow>
          if currentView m = ''main'' then Inr (list_View tk (mainList m))
          else if currentView m = ''movies'' then Inr (list_View tk (moviesList m))
          else if currentView m = ''tvshows'' then Inr (list_View tk (tvShowsList m))
          else if currentView m = ''seasons'' then Inr (list_View tk (seasonsList m))
          else if currentView m = ''episodes'' then Inr (list_View tk (episodesList m))
          else if currentView m = ''search'' then
            (if length (Items (searchList m)) > 0 then Inr (list_View tk (searchList m))
             else Inr (''Search: '' @ textinput_View tk (searchInput m) @ [CHR 0x0A, CHR 0x0A]
                       @ ''Type a search query and press Enter''))
          else if currentView m = ''config'' then
            (if length (configInputs m) < 2 then Inl IndexOutOfRange
             else
               Inr (''Configure Jellyfin Connection'' @ [CHR 0x0A, CHR 0x0A]
                    @ ''Server URL: '' @ textinput_View tk (configInputs m ! 0)
                    @ [CHR 0x0A, CHR 0x0A]
                    @ ''API Key: '' @ textinput_View tk (configInputs m ! 1)
                    @ [CHR 0x0A, CHR 0x0A]
                    @ ''(Press Enter to save and return to main menu)''))
          else Inr ''Unknown view'')"

section \<open>Commands\<close>

subsection \<open>The client (package jellyfin)\<close>

record Client =
  client_ServerURL :: string
  client_APIKey :: string

definition NewClient :: "string \<Rightarrow> string \<Rightarrow> Client" where
  "NewClient serverURL apiKey = \<lparr>client_ServerURL = serverURL, client_APIKey = apiKey\<rparr>"

definition GetStreamURL :: "Client \<Rightarrow> string \<Rightarrow> string" where
  "GetStreamURL c itemID =
     client_ServerURL c @ ''/Videos/'' @ itemID @ ''/stream?api_key='' @ client_APIKey c"

definition fetchItems :: "world \<Rightarrow> Client \<Rightarrow> string \<Rightarrow> error + jf_MediaItem list" where
  "fetchItems w c endpoint =
     (case http_Get w endpoint of
        Inl e \<Rightarrow> Inl e
      | Inr resp \<Rightarrow>
          if StatusCode resp \<noteq> 200 then
            Inl (Error (''API request failed with status: '' @ Status resp))
          else (case Body resp of
                  Inl e \<Rightarrow> Inl e
                | Inr body \<Rightarrow>
                    (case json_Unmarshal_Items w body of
                       Inl e \<Rightarrow> Inl e
                     | Inr its \<Rightarrow> Inr its)))"

definition GetMovies :: "world \<Rightarrow> Client \<Rightarrow> error + jf_MediaItem list" where
  "GetMovies w c =
     fetchItems w c
       (client_ServerURL c @ ''/Items?IncludeItemTypes=Movie&Recursive=true&api_key=''
        @ client_APIKey c)"

definition GetTVShows :: "world \<Rightarrow> Client \<Rightarrow> error + jf_MediaItem list" where
  "GetTVShows w c =
     fetchItems w c
       (client_ServerURL c @ ''/Items?IncludeItemTypes=Series&Recursive=true&api_key=''
        @ client_APIKey c)"

definition Search :: "world \<Rightarrow> Client \<Rightarrow> string \<Rightarrow> error + jf_MediaItem list" where
  "Search w c query =
     fetchItems w c
       (client_ServerURL c @ ''/Items?SearchTerm='' @ url_QueryEscape w query
        @ ''&Recursive=true&api_key='' @ client_APIKey c)"

definition FetchItems :: "world \<Rightarrow> Client \<Rightarrow> string \<Rightarrow> error + jf_MediaItem list" where
  "FetchItems w c endpoint = fetchItems w c endpoint"

subsection \<open>The bodies of the command closures (main.go)\<close>

definition fetchMovies :: "world \<Rightarrow> Config \<Rightarrow> msg" where
  "fetchMovies w cfg =
     (let client = NewClient (ServerURL cfg) (APIKey cfg)
      in case GetMovies w client of
           Inl e \<Rightarrow> errorMsg e
         | Inr its \<Rightarrow>
             fetchMoviesMsg
               (map (\<lambda>item. MediaItem_zero
                       \<lparr>ID := jf_ID item, ItemTitle := jf_Name item,
                        Type := jf_MediaType item,
                        StreamURL := GetStreamURL client (jf_ID item)\<rparr>) its))"

definition fetchTVShows :: "world \<Rightarrow> Config \<Rightarrow> msg" where
  "fetchTVShows w cfg =
     (let client = NewClient (ServerURL cfg) (APIKey cfg)
      in case GetTVShows w client of
           Inl e \<Rightarrow> errorMsg e
         | Inr its \<Rightarrow>
             fetchTVShowsMsg
               (map (\<lambda>item. MediaItem_zero
                       \<lparr>ID := jf_ID item, ItemTitle := jf_Name item, Type := ''tvshow'',
                        StreamURL := GetStreamURL client (jf_ID item)\<rparr>) its))"

definition fetchSeasons :: "world \<Rightarrow> Config \<Rightarrow> string \<Rightarrow> msg" where
  "fetchSeasons w cfg seriesID =
     (let client = NewClient (ServerURL cfg) (APIKey cfg);
          endpoint = ServerURL cfg @ ''/Shows/'' @ seriesID @ ''/Seasons?api_key='' @ APIKey cfg
      in case FetchItems w client endpoint of
           Inl e \<Rightarrow> errorMsg e
         | Inr its \<Rightarrow>
             fetchSeasonsMsg
               (map (\<lambda>item. MediaItem_zero
                       \<lparr>ID := jf_ID item, ItemTitle := jf_Name item, Type := ''season'',
                        ParentID := seriesID, StreamURL := []\<rparr>) its))"

text \<open>\<open>fmt.Sprintf("E%02d: %s", n, name)\<close> for \<open>n > 0\<close>: decimal, at least two digits.\<close>

fun decimal :: "nat \<Rightarrow> string" where
  "decimal n =
     (if n < 10 then [''0123456789'' ! n]
      else decimal (n div 10) @ [''0123456789'' ! (n mod 10)])"

declare decimal.simps [simp del]

definition episodeTitle :: "int \<Rightarrow> string \<Rightarrow> string" where
  "episodeTitle n name =
     ''E'' @ (if nat n < 10 then ''0'' else []) @ decimal (nat n) @ '': '' @ name"

text \<open>
  \<open>sort.Slice\<close> with the comparison \<open>lt\<close>: insertion from the right. The library
  promises a sorted permutation and no order among elements that compare equal; nothing
  below depends on the order this model gives to such elements.
\<close>

fun insert_less :: "('a \<Rightarrow> 'a \<Rightarrow> bool) \<Rightarrow> 'a \<Rightarrow> 'a list \<Rightarrow> 'a list" where
  "insert_less lt x [] = [x]"
| "insert_less lt x (y # ys) =
     (if lt x y then x # y # ys else y # insert_less lt x ys)"

definition sort_Slice :: "('a \<Rightarrow> 'a \<Rightarrow> bool) \<Rightarrow> 'a list \<Rightarrow> 'a list" where
  "sort_Slice lt xs = foldr (insert_less lt) xs []"

definition fetchEpisodes :: "world \<Rightarrow> Config \<Rightarrow> string \<Rightarrow> msg" where
  "fetchEpisodes w cfg seasonID =
     (let client = NewClient (ServerURL cfg) (APIKey cfg);
          endpoint = ServerURL cfg @ ''/Items?ParentId='' @ seasonID @ ''&api_key=''
                     @ APIKey cfg @ ''&SortBy=SortName''
      in case FetchItems w client endpoint of
           Inl e \<Rightarrow> errorMsg e
         | Inr its \<Rightarrow>
             (let mediaItems =
                    map (\<lambda>item.
                           MediaItem_zero
                             \<lparr>ID := jf_ID item, ItemTitle := jf_Name item, Type := ''episode'',
                              ParentID := seasonID,
                              StreamURL := GetStreamURL client (jf_ID item),
                              IndexNumber := jf_IndexNumber item,
                              DisplayTitle :=
                                (if jf_IndexNumber item > 0
                                 then episodeTitle (jf_IndexNumber item) (jf_Name item)
                                 else jf_Name item)\<rparr>) its
              in fetchEpisodesMsg
                   (sort_Slice (\<lambda>a b. IndexNumber a < IndexNumber b) mediaItems)))"

definition searchMedia :: "world \<Rightarrow> Config \<Rightarrow> string \<Rightarrow> msg" where
  "searchMedia w cfg query =
     (let client = NewClient (ServerURL cfg) (APIKey cfg)
      in case Search w client query of
           Inl e \<Rightarrow> errorMsg e
         | Inr its \<Rightarrow>
             searchResultsMsg
               (map (\<lambda>item. MediaItem_zero
                       \<lparr>ID := jf_ID item, ItemTitle := jf_Name item,
                        Type := jf_MediaType item,
                        StreamURL := GetStreamURL client (jf_ID item)\<rparr>) its))"

definition playMedia :: "world \<Rightarrow> MediaItem \<Rightarrow> msg" where
  "playMedia w item =
     (case exec_Start w ''mpv'' [StreamURL item] of
        Some e \<Rightarrow> errorMsg (Errorf ''failed to start MPV: '' e)
      | None \<Rightarrow> NilMsg)"

text \<open>Running a command of the program; the commands of the toolkit are not run here.\<close>

fun perform :: "world \<Rightarrow> cmd \<Rightarrow> msg option" where
  "perform w (FetchMovies cfg) = Some (fetchMovies w cfg)"
| "perform w (FetchTVShows cfg) = Some (fetchTVShows w cfg)"
| "perform w (FetchSeasons cfg seriesID) = Some (fetchSeasons w cfg seriesID)"
| "perform w (FetchEpisodes cfg seasonID) = Some (fetchEpisodes w cfg seasonID)"
| "perform w (SearchMedia cfg query) = Some (searchMedia w cfg query)"
| "perform w (PlayMedia item) = Some (playMedia w item)"
| "perform w Quit = None"
| "perform w (ToolkitCmd n) = None"

section \<open>The event loop\<close>

text \<open>
  The runtime feeds the events to \<open>Update\<close> one at a time, in arrival order; a panic
  ends the program.
\<close>

fun Updates ::
  "toolkit \<Rightarrow> world \<Rightarrow> msg list \<Rightarrow> Model \<Rightarrow> filesystem \<Rightarrow> panic + (Model \<times> filesystem)" where
  "Updates tk w [] m fs = Inr (m, fs)"
| "Updates tk w (x # xs) m fs =
     (case Update tk w x m fs of
        Inl p \<Rightarrow> Inl p
      | Inr (m', c, fs') \<Rightarrow> Updates tk w xs m' fs')"

text \<open>The successful results of the five fetch commands.\<close>

fun isFetchResult :: "msg \<Rightarrow> bool" where
  "isFetchResult (fetchMoviesMsg xs) = True"
| "isFetchResult (fetchTVShowsMsg xs) = True"
| "isFetchResult (fetchSeasonsMsg xs) = True"
| "isFetchResult (fetchEpisodesMsg xs) = True"
| "isFetchResult (searchResultsMsg xs) = True"
| "isFetchResult _ = False"


section \<open>Sample environment\<close>

text \<open>
  A concrete toolkit, world and file system on which the theorems below are instantiated:
  lists move their cursor on the arrow keys, a focused text input appends a one-character
  key, the configuration is written as two lines, and the server answers every request
  with three episodes, the last of them without \<open>IndexNumber\<close>.
\<close>

definition sample_toolkit :: toolkit where
  "sample_toolkit =
     \<lparr>list_Update =
        (\<lambda>msg l. case msg of
                    KeyMsg k \<Rightarrow>
                      if k = ''down'' \<and> list_index l + 1 < length (list_items l)
                      then (l\<lparr>list_index := list_index l + 1\<rparr>, None)
                      else if k = ''up'' then (l\<lparr>list_index := list_index l - 1\<rparr>, None)
                      else (l, None)
                  | _ \<Rightarrow> (l, None)),
      textinput_Update =
        (\<lambda>msg t. case msg of
                    KeyMsg k \<Rightarrow>
                      if ti_focus t \<and> length k = 1 then (t\<lparr>ti_value := ti_value t @ k\<rparr>, None)
                      else (t, None)
                  | _ \<Rightarrow> (t, None)),
      list_View = (\<lambda>l. list_Title l),
      textinput_View = (\<lambda>t. ti_value t),
      GetFrameSize = (4, 2)\<rparr>"

definition sample_episodes :: "jf_MediaItem list" where
  "sample_episodes =
     [\<lparr>jf_ID = ''e1'', jf_Name = ''Two'', jf_Type = ''Episode'', jf_MediaType = ''Video'',
       jf_ImageTags = [], jf_IndexNumber = 2\<rparr>,
      \<lparr>jf_ID = ''e2'', jf_Name = ''One'', jf_Type = ''Episode'', jf_MediaType = ''Video'',
       jf_ImageTags = [], jf_IndexNumber = 1\<rparr>,
      \<lparr>jf_ID = ''e3'', jf_Name = ''Special'', jf_Type = ''Episode'', jf_MediaType = ''Video'',
       jf_ImageTags = [], jf_IndexNumber = 0\<rparr>]"

definition sample_world :: world where
  "sample_world =
     \<lparr>json_MarshalIndent = (\<lambda>c. Inr (ServerURL c @ [CHR 0x0A] @ APIKey c)),
      json_Unmarshal_Config =
        (\<lambda>d. if CHR 0x0A \<in> set d
              then Inr \<lparr>ServerURL = takeWhile (\<lambda>c. c \<noteq> CHR 0x0A) d,
                        APIKey = tl (dropWhile (\<lambda>c. c \<noteq> CHR 0x0A) d)\<rparr>
              else Inl (Error ''unexpected end of JSON input'')),
      http_Get = (\<lambda>url. Inr \<lparr>StatusCode = 200, Status = ''200 OK'', Body = Inr ''{}''\<rparr>),
      json_Unmarshal_Items = (\<lambda>body. Inr sample_episodes),
      url_QueryEscape = (\<lambda>s. s),
      exec_Start = (\<lambda>name args. None)\<rparr>"

definition sample_fs :: filesystem where
  "sample_fs = \<lparr>home = Some ''/home/u'', dirs = {''/home/u''}, files = Map.empty, denied = {}\<rparr>"


text \<open>The model the program starts with, and the same after a command has failed.\<close>

definition start :: Model where
  "start = fst (initialModel sample_world sample_fs)"

definition failed :: Model where
  "failed = start\<lparr>err := Some (Error ''connection refused'')\<rparr>"

definition sample_show :: MediaItem where
  "sample_show = MediaItem_zero\<lparr>ID := ''s1'', ItemTitle := ''A Show'', Type := ''tvshow''\<rparr>"


text \<open>The sample model in a given view, each of whose lists holds the one given record.\<close>

definition viewing :: "string \<Rightarrow> MediaItem \<Rightarrow> Model" where
  "viewing v item =
     start\<lparr>currentView := v,
           moviesList := SetItems [item] (moviesList start),
           tvShowsList := SetItems [item] (tvShowsList start),
           seasonsList := SetItems [item] (seasonsList start),
           episodesList := SetItems [item] (episodesList start),
           searchList := SetItems [item] (searchList start)\<rparr>"

definition sample_movie :: MediaItem where
  "sample_movie =
     MediaItem_zero\<lparr>ID := ''m1'', ItemTitle := ''The Matrix'', Type := ''Video'',
                    StreamURL := ''https://jellyfin.example.com/Videos/m1/stream?api_key=k''\<rparr>"

text \<open>The Search view after the query \<open>matrix\<close> has been submitted and one result has arrived.\<close>

definition searching :: Model where
  "searching = (viewing ''search'' sample_movie)\<lparr>searchInput := SetValue ''matrix'' (searchInput start)\<rparr>"


section \<open>Facts about the sample environment\<close>

lemma start_config: "config start = defaultConfig"
  by (simp add: start_def initialModel_def loadConfig_def sample_fs_def
      os_UserHomeDir_def os_Stat_IsNotExist_def filepath_Join_def Let_def)

lemma start_fields:
  "currentView start = ''main''"
  "mainList start = list_New mainItems ''Jellyfin TUI''"
  "moviesList start = list_New [] ''Movies''"
  "tvShowsList start = list_New [] ''TV Shows''"
  "seasonsList start = list_New [] ''Seasons''"
  "episodesList start = list_New [] ''Episodes''"
  "searchList start = list_New [] ''Search Results''"
  "currentItem start = MediaItem_zero"
  "err start = None"
  by (simp_all add: start_def initialModel_def Let_def split: prod.splits)

lemma start_inputs:
  "Value (searchInput start) = []"
  "length (configInputs start) = 2"
  by (simp_all add: start_def initialModel_def Let_def Value_def SetValue_def Focus_def
      textinput_New_def split: prod.splits)

lemma failed_fields:
  "err failed = Some (Error ''connection refused'')"
  "currentView failed = ''main''"
  "mainList failed = list_New mainItems ''Jellyfin TUI''"
  "config failed = defaultConfig"
  by (simp_all add: failed_def start_fields start_config)

lemma viewing_fields:
  "currentView (viewing v item) = v"
  "config (viewing v item) = defaultConfig"
  "moviesList (viewing v item) = list_New [item] ''Movies''"
  "tvShowsList (viewing v item) = list_New [item] ''TV Shows''"
  "seasonsList (viewing v item) = list_New [item] ''Seasons''"
  "episodesList (viewing v item) = list_New [item] ''Episodes''"
  "searchList (viewing v item) = list_New [item] ''Search Results''"
  "currentItem (viewing v item) = MediaItem_zero"
  "err (viewing v item) = None"
  "Value (searchInput (viewing v item)) = []"
  by (simp_all add: viewing_def start_fields start_config start_inputs SetItems_def list_New_def)

lemma sample_list_enter: "list_Update sample_toolkit (KeyMsg ''enter'') l = (l, None)"
  by (simp add: sample_toolkit_def)

lemma SelectedItem_New: "SelectedItem (list_New (x # xs) t) = Some x"
  by (simp add: SelectedItem_def list_New_def)

section \<open>The error slot\<close>

text \<open>Every case of the switch on \<open>m.currentView\<close> but \<open>"config"\<close> leaves \<open>m.err\<close> alone.\<close>

lemma updateMain_err: "updateMain tk msg m = Inr (m', c) \<Longrightarrow> err m' = err m"
  by (auto simp: updateMain_def Let_def split: prod.splits option.splits if_splits)

lemma updateLibrary_err: "updateLibrary tk msg m = Inr (m', c) \<Longrightarrow> err m' = err m"
  by (auto simp: updateLibrary_def Let_def split: prod.splits option.splits if_splits)

lemma updateSeasons_err: "updateSeasons tk msg m = Inr (m', c) \<Longrightarrow> err m' = err m"
  by (auto simp: updateSeasons_def Let_def split: prod.splits option.splits if_splits)

lemma updateEpisodes_err: "updateEpisodes tk msg m = Inr (m', c) \<Longrightarrow> err m' = err m"
  by (auto simp: updateEpisodes_def Let_def split: prod.splits option.splits if_splits)

lemma updateSearch_err: "updateSearch tk msg m = Inr (m', c) \<Longrightarrow> err m' = err m"
  by (auto simp: updateSearch_def Let_def split: prod.splits option.splits if_splits)

text \<open>Case \<open>"config"\<close> assigns \<open>m.err\<close> only the non-nil error of \<open>saveConfig\<close>.\<close>

lemma updateConfig_err:
  "updateConfig tk w msg m fs = Inr (m', c, fs') \<Longrightarrow> err m \<noteq> None \<Longrightarrow> err m' \<noteq> None"
  by (auto simp: updateConfig_def Let_def
      split: prod.splits option.splits if_splits msg.splits sum.splits)

lemma withFs_Inr: "withFs fs r = Inr (m', c, fs') \<Longrightarrow> r = Inr (m', c) \<and> fs' = fs"
  by (auto simp: withFs_def split: sum.splits prod.splits)

lemma updateView_err:
  "updateView tk w msg m fs = Inr (m', c, fs') \<Longrightarrow> err m \<noteq> None \<Longrightarrow> err m' \<noteq> None"
  unfolding updateView_def
  by (auto split: if_splits dest!: withFs_Inr
      dest: updateMain_err updateLibrary_err updateSeasons_err updateEpisodes_err
        updateSearch_err updateConfig_err)

lemma resize_err: "err (resize tk wd ht m) = err m"
  by (simp add: resize_def split: prod.splits)

lemma Update_err:
  "Update tk w msg m fs = Inr (m', c, fs') \<Longrightarrow> err m \<noteq> None \<Longrightarrow> err m' \<noteq> None"
  unfolding Update_def
  by (cases msg) (auto split: if_splits dest: updateView_err simp: resize_err)

lemma Updates_err:
  "Updates tk w msgs m fs = Inr (m', fs') \<Longrightarrow> err m \<noteq> None \<Longrightarrow> err m' \<noteq> None"
proof (induction msgs arbitrary: m fs)
  case Nil
  then show ?case by simp
next
  case (Cons x xs)
  from Cons.prems(1) obtain m1 c1 fs1 where
    step: "Update tk w x m fs = Inr (m1, c1, fs1)" and
    rest: "Updates tk w xs m1 fs1 = Inr (m', fs')"
    by (auto split: sum.splits)
  from Update_err [OF step Cons.prems(2)] have "err m1 \<noteq> None" .
  with Cons.IH [OF rest] show ?case .
qed

lemma View_err:
  "err m = Some e \<Longrightarrow>
   View tk m
     = Inr (''Error: '' @ error_text e @ [CHR 0x0A, CHR 0x0A] @ ''Press any key to exit.'')"
  by (simp add: View_def)

text \<open>
  Claim C9. No event resets \<open>err\<close> to nil: once an error is recorded, the model after
  any sequence of events that \<open>Update\<close> handles still carries an error, and \<open>View\<close>
  renders the error text instead of any view.
\<close>

theorem err_is_never_reset:
  assumes "err m \<noteq> None" and "Updates tk w msgs m fs = Inr (m', fs')"
  shows "\<exists>e. err m' = Some e
           \<and> View tk m'
               = Inr (''Error: '' @ error_text e @ [CHR 0x0A, CHR 0x0A]
                      @ ''Press any key to exit.'')"
proof -
  from Updates_err [OF assms(2) assms(1)] obtain e where "err m' = Some e" by auto
  then show ?thesis by (auto simp: View_err)
qed

text \<open>
  On the sample model with a recorded error: entering Movies, receiving its (empty) result
  and going back still ends with the error on screen.
\<close>

theorem err_is_never_reset_witness:
  "err failed \<noteq> None
   \<and> (\<exists>m'. Updates sample_toolkit sample_world
               [KeyMsg ''enter'', fetchMoviesMsg [], KeyMsg ''esc''] failed sample_fs
             = Inr (m', sample_fs)
           \<and> currentView m' = ''main''
           \<and> (\<exists>e. err m' = Some e
                  \<and> View sample_toolkit m'
                      = Inr (''Error: '' @ error_text e @ [CHR 0x0A, CHR 0x0A]
                             @ ''Press any key to exit.'')))"
proof -
  let ?m' = "failed\<lparr>mainList := list_New mainItems ''Jellyfin TUI'', currentView := ''movies'',
                    moviesList := (moviesList failed)\<lparr>list_items := []\<rparr>,
                    currentView := ''main''\<rparr>"
  have run: "Updates sample_toolkit sample_world
               [KeyMsg ''enter'', fetchMoviesMsg [], KeyMsg ''esc''] failed sample_fs
             = Inr (?m', sample_fs)"
    by (simp add: Update_def updateView_def updateMain_def withFs_def isEnter_def failed_fields
        sample_toolkit_def SelectedItem_def list_New_def mainItems_def SetItems_def
        convertToListItems_def)
  have h: "err failed \<noteq> None" by (simp add: failed_fields)
  have v: "currentView ?m' = ''main''" by simp
  from err_is_never_reset [OF h run] h run v show ?thesis by metis
qed

text \<open>
  Claim C10. In every view the key \<open>q\<close> returns the quit command and the model
  unchanged, before any view or text input sees the key: neither the search query nor a
  field of the Configure view receives the letter.
\<close>

theorem quit_on_q: "Update tk w (KeyMsg ''q'') m fs = Inr (m, Some Quit, fs)"
  by (simp add: Update_def)

section \<open>Results of the commands\<close>

text \<open>A fetch whose request fails delivers the error as an \<open>errorMsg\<close>.\<close>

lemma failed_fetch_yields_errorMsg:
  assumes "\<And>c endpoint. fetchItems w c endpoint = Inl e"
  shows "fetchMovies w cfg = errorMsg e" and "fetchTVShows w cfg = errorMsg e"
    and "fetchSeasons w cfg seriesID = errorMsg e"
    and "fetchEpisodes w cfg seasonID = errorMsg e"
    and "searchMedia w cfg query = errorMsg e"
  by (simp_all add: fetchMovies_def fetchTVShows_def fetchSeasons_def fetchEpisodes_def
      searchMedia_def GetMovies_def GetTVShows_def Search_def FetchItems_def assms)

text \<open>
  Claim C7. A failed fetch arrives as an \<open>errorMsg\<close>: \<open>Update\<close> stores the carried
  error in \<open>err\<close> and changes nothing else, so the view, the drilled-into record and every
  list keep their contents, and no command is emitted.
\<close>

theorem error_result_sets_only_err:
  "Update tk w (errorMsg e) m fs = Inr (m\<lparr>err := Some e\<rparr>, None, fs)"
  by (simp add: Update_def)

text \<open>
  Claim C6. A successful fetch result replaces the items of the list it is meant for,
  whatever the current view is, and changes nothing else in the model.
\<close>

theorem fetch_result_replaces_target_buffer:
  "Update tk w (fetchMoviesMsg xs) m fs
     = Inr (m\<lparr>moviesList := (moviesList m)\<lparr>list_items := xs\<rparr>\<rparr>, None, fs)
   \<and> Update tk w (fetchTVShowsMsg xs) m fs
     = Inr (m\<lparr>tvShowsList := (tvShowsList m)\<lparr>list_items := xs\<rparr>\<rparr>, None, fs)
   \<and> Update tk w (fetchSeasonsMsg xs) m fs
     = Inr (m\<lparr>seasonsList := (seasonsList m)\<lparr>list_items := xs\<rparr>\<rparr>, None, fs)
   \<and> Update tk w (fetchEpisodesMsg xs) m fs
     = Inr (m\<lparr>episodesList := (episodesList m)\<lparr>list_items := xs\<rparr>\<rparr>, None, fs)
   \<and> Update tk w (searchResultsMsg xs) m fs
     = Inr (m\<lparr>searchList := (searchList m)\<lparr>list_items := xs\<rparr>\<rparr>, None, fs)"
  by (simp add: Update_def SetItems_def convertToListItems_def)

text \<open>
  Claim C2, as the code has it. A successful fetch result does not clear the error: if
  \<open>err\<close> is set before the result arrives, it holds the same error afterwards and \<open>View\<close>
  still renders the error text in place of the view.
\<close>

theorem fetch_result_keeps_error:
  assumes "isFetchResult msg" and "err m = Some e"
  shows "\<exists>m'. Update tk w msg m fs = Inr (m', None, fs) \<and> err m' = Some e
           \<and> View tk m'
               = Inr (''Error: '' @ error_text e @ [CHR 0x0A, CHR 0x0A]
                      @ ''Press any key to exit.'')"
  using assms by (cases msg) (simp_all add: Update_def View_def)

theorem fetch_result_keeps_error_witness:
  "isFetchResult (fetchMoviesMsg [sample_show])
   \<and> err failed = Some (Error ''connection refused'')
   \<and> (\<exists>m'. Update sample_toolkit sample_world (fetchMoviesMsg [sample_show]) failed sample_fs
              = Inr (m', None, sample_fs)
            \<and> err m' = Some (Error ''connection refused''))"
proof -
  have h1: "isFetchResult (fetchMoviesMsg [sample_show])" by simp
  have h2: "err failed = Some (Error ''connection refused'')" by (simp add: failed_fields)
  from fetch_result_keeps_error [OF h1 h2, of sample_toolkit sample_world sample_fs] h1 h2
  show ?thesis by blast
qed

text \<open>
  The claim as stated fails: on the sample model with a recorded error, the result of a
  movies fetch is stored and the error is still there.
\<close>

theorem fetch_result_clears_error_counterexample:
  "err failed = Some (Error ''connection refused'')
   \<and> Update sample_toolkit sample_world (fetchMoviesMsg [sample_show]) failed sample_fs
       = Inr (failed\<lparr>moviesList := (moviesList failed)\<lparr>list_items := [sample_show]\<rparr>\<rparr>,
              None, sample_fs)
   \<and> err (failed\<lparr>moviesList := (moviesList failed)\<lparr>list_items := [sample_show]\<rparr>\<rparr>)
       = Some (Error ''connection refused'')"
  by (simp add: Update_def failed_fields SetItems_def convertToListItems_def)

section \<open>Navigation\<close>

lemma isEnter_enter: "isEnter (KeyMsg ''enter'')"
  by (simp add: isEnter_def)

lemma Update_enter: "Update tk w (KeyMsg ''enter'') m fs = updateView tk w (KeyMsg ''enter'') m fs"
  by (simp add: Update_def)

text \<open>
  Claim C1, as the code has it. Each transition that enters a view with a fetch (Movies or
  TV Shows chosen in the main menu, a record with an id chosen in Movies, TV Shows or
  Seasons) sets \<open>currentView\<close> to the view entered and emits the fetch command; \<open>err\<close>
  is left as it was, so an error recorded earlier stays recorded. The selected record is
  the one under the cursor after the list has handled the key.
\<close>

theorem enter_view_with_fetch:
  "(currentView m = ''main''
      \<and> SelectedItem (fst (list_Update tk (KeyMsg ''enter'') (mainList m))) = Some item
      \<and> ItemTitle item = ''Movies''
    \<longrightarrow> (\<exists>m'. Update tk w (KeyMsg ''enter'') m fs = Inr (m', Some (FetchMovies (config m)), fs)
              \<and> currentView m' = ''movies'' \<and> err m' = err m))
   \<and> (currentView m = ''main''
      \<and> SelectedItem (fst (list_Update tk (KeyMsg ''enter'') (mainList m))) = Some item
      \<and> ItemTitle item = ''TV Shows''
    \<longrightarrow> (\<exists>m'. Update tk w (KeyMsg ''enter'') m fs = Inr (m', Some (FetchTVShows (config m)), fs)
              \<and> currentView m' = ''tvshows'' \<and> err m' = err m))
   \<and> (currentView m = ''movies''
      \<and> SelectedItem (fst (list_Update tk (KeyMsg ''enter'') (moviesList m))) = Some item
      \<and> ID item \<noteq> []
    \<longrightarrow> (\<exists>m'. Update tk w (KeyMsg ''enter'') m fs
                = Inr (m', Some (FetchSeasons (config m) (ID item)), fs)
              \<and> currentView m' = ''seasons'' \<and> currentItem m' = item \<and> err m' = err m))
   \<and> (currentView m = ''tvshows''
      \<and> SelectedItem (fst (list_Update tk (KeyMsg ''enter'') (tvShowsList m))) = Some item
      \<and> ID item \<noteq> []
    \<longrightarrow> (\<exists>m'. Update tk w (KeyMsg ''enter'') m fs
                = Inr (m', Some (FetchSeasons (config m) (ID item)), fs)
              \<and> currentView m' = ''seasons'' \<and> currentItem m' = item \<and> err m' = err m))
   \<and> (currentView m = ''seasons''
      \<and> SelectedItem (fst (list_Update tk (KeyMsg ''enter'') (seasonsList m))) = Some item
      \<and> ID item \<noteq> []
    \<longrightarrow> (\<exists>m'. Update tk w (KeyMsg ''enter'') m fs
                = Inr (m', Some (FetchEpisodes (config m) (ID item)), fs)
              \<and> currentView m' = ''episodes'' \<and> currentItem m' = item \<and> err m' = err m))"
  by (auto simp: Update_enter updateView_def withFs_def updateMain_def updateLibrary_def
      updateSeasons_def isEnter_enter Let_def split: prod.splits)

theorem enter_view_with_fetch_witness:
  "(currentView start = ''main''
      \<and> SelectedItem (fst (list_Update sample_toolkit (KeyMsg ''enter'') (mainList start)))
          = Some (mainItems ! 0)
      \<and> ItemTitle (mainItems ! 0) = ''Movies''
      \<and> (\<exists>m'. Update sample_toolkit sample_world (KeyMsg ''enter'') start sample_fs
                 = Inr (m', Some (FetchMovies defaultConfig), sample_fs)
               \<and> currentView m' = ''movies'' \<and> err m' = None))
   \<and> (currentView (start\<lparr>mainList := (mainList start)\<lparr>list_index := 1\<rparr>\<rparr>) = ''main''
      \<and> SelectedItem (fst (list_Update sample_toolkit (KeyMsg ''enter'')
                              (mainList (start\<lparr>mainList := (mainList start)\<lparr>list_index := 1\<rparr>\<rparr>))))
          = Some (mainItems ! 1)
      \<and> ItemTitle (mainItems ! 1) = ''TV Shows''
      \<and> (\<exists>m'. Update sample_toolkit sample_world (KeyMsg ''enter'')
                   (start\<lparr>mainList := (mainList start)\<lparr>list_index := 1\<rparr>\<rparr>) sample_fs
                 = Inr (m', Some (FetchTVShows defaultConfig), sample_fs)
               \<and> currentView m' = ''tvshows'' \<and> err m' = None))
   \<and> (currentView (viewing ''movies'' sample_show) = ''movies''
      \<and> SelectedItem (fst (list_Update sample_toolkit (KeyMsg ''enter'')
                              (moviesList (viewing ''movies'' sample_show))))
          = Some sample_show
      \<and> ID sample_show \<noteq> []
      \<and> (\<exists>m'. Update sample_toolkit sample_world (KeyMsg ''enter'')
                   (viewing ''movies'' sample_show) sample_fs
                 = Inr (m', Some (FetchSeasons defaultConfig ''s1''), sample_fs)
               \<and> currentView m' = ''seasons'' \<and> currentItem m' = sample_show \<and> err m' = None))
   \<and> (currentView (viewing ''tvshows'' sample_show) = ''tvshows''
      \<and> SelectedItem (fst (list_Update sample_toolkit (KeyMsg ''enter'')
                              (tvShowsList (viewing ''tvshows'' sample_show))))
          = Some sample_show
      \<and> (\<exists>m'. Update sample_toolkit sample_world (KeyMsg ''enter'')
                   (viewing ''tvshows'' sample_show) sample_fs
                 = Inr (m', Some (FetchSeasons defaultConfig ''s1''), sample_fs)
               \<and> currentView m' = ''seasons'' \<and> currentItem m' = sample_show \<and> err m' = None))
   \<and> (currentView (viewing ''seasons'' sample_show) = ''seasons''
      \<and> SelectedItem (fst (list_Update sample_toolkit (KeyMsg ''enter'')
                              (seasonsList (viewing ''seasons'' sample_show))))
          = Some sample_show
      \<and> (\<exists>m'. Update sample_toolkit sample_world (KeyMsg ''enter'')
                   (viewing ''seasons'' sample_show) sample_fs
                 = Inr (m', Some (FetchEpisodes defaultConfig ''s1''), sample_fs)
               \<and> currentView m' = ''episodes'' \<and> currentItem m' = sample_show \<and> err m' = None))"
proof -
  let ?second = "start\<lparr>mainList := (mainList start)\<lparr>list_index := 1\<rparr>\<rparr>"
  have id: "ID sample_show = ''s1''"
    by (simp add: sample_show_def MediaItem_zero_def)
  have a: "currentView start = ''main''
      \<and> SelectedItem (fst (list_Update sample_toolkit (KeyMsg ''enter'') (mainList start)))
          = Some (mainItems ! 0)
      \<and> ItemTitle (mainItems ! 0) = ''Movies''"
    by (simp add: start_fields sample_list_enter SelectedItem_def list_New_def mainItems_def)
  have b: "currentView ?second = ''main''
      \<and> SelectedItem (fst (list_Update sample_toolkit (KeyMsg ''enter'') (mainList ?second)))
          = Some (mainItems ! 1)
      \<and> ItemTitle (mainItems ! 1) = ''TV Shows''"
    by (simp add: start_fields sample_list_enter SelectedItem_def list_New_def mainItems_def)
  have c: "currentView (viewing ''movies'' sample_show) = ''movies''
      \<and> SelectedItem (fst (list_Update sample_toolkit (KeyMsg ''enter'')
                              (moviesList (viewing ''movies'' sample_show))))
          = Some sample_show
      \<and> ID sample_show \<noteq> []"
    by (simp add: viewing_fields sample_list_enter SelectedItem_New id)
  have d: "currentView (viewing ''tvshows'' sample_show) = ''tvshows''
      \<and> SelectedItem (fst (list_Update sample_toolkit (KeyMsg ''enter'')
                              (tvShowsList (viewing ''tvshows'' sample_show))))
          = Some sample_show
      \<and> ID sample_show \<noteq> []"
    by (simp add: viewing_fields sample_list_enter SelectedItem_New id)
  have e: "currentView (viewing ''seasons'' sample_show) = ''seasons''
      \<and> SelectedItem (fst (list_Update sample_toolkit (KeyMsg ''enter'')
                              (seasonsList (viewing ''seasons'' sample_show))))
          = Some sample_show
      \<and> ID sample_show \<noteq> []"
    by (simp add: viewing_fields sample_list_enter SelectedItem_New id)
  note T = enter_view_with_fetch [where tk = sample_toolkit and w = sample_world and fs = sample_fs]
  have 1: "\<exists>m'. Update sample_toolkit sample_world (KeyMsg ''enter'') start sample_fs
                 = Inr (m', Some (FetchMovies defaultConfig), sample_fs)
               \<and> currentView m' = ''movies'' \<and> err m' = None"
    using T [where m = start and item = "mainItems ! 0", THEN conjunct1, rule_format, OF a]
    by (simp only: start_config start_fields)
  have 2: "\<exists>m'. Update sample_toolkit sample_world (KeyMsg ''enter'') ?second sample_fs
                 = Inr (m', Some (FetchTVShows defaultConfig), sample_fs)
               \<and> currentView m' = ''tvshows'' \<and> err m' = None"
    using T [where m = ?second and item = "mainItems ! 1", THEN conjunct2, THEN conjunct1,
        rule_format, OF b]
    by (simp add: start_config start_fields)
  have 3: "\<exists>m'. Update sample_toolkit sample_world (KeyMsg ''enter'')
                   (viewing ''movies'' sample_show) sample_fs
                 = Inr (m', Some (FetchSeasons defaultConfig ''s1''), sample_fs)
               \<and> currentView m' = ''seasons'' \<and> currentItem m' = sample_show \<and> err m' = None"
    using T [where m = "viewing ''movies'' sample_show" and item = sample_show,
        THEN conjunct2, THEN conjunct2, THEN conjunct1, rule_format, OF c]
    by (simp only: viewing_fields id)
  have 4: "\<exists>m'. Update sample_toolkit sample_world (KeyMsg ''enter'')
                   (viewing ''tvshows'' sample_show) sample_fs
                 = Inr (m', Some (FetchSeasons defaultConfig ''s1''), sample_fs)
               \<and> currentView m' = ''seasons'' \<and> currentItem m' = sample_show \<and> err m' = None"
    using T [where m = "viewing ''tvshows'' sample_show" and item = sample_show,
        THEN conjunct2, THEN conjunct2, THEN conjunct2, THEN conjunct1, rule_format, OF d]
    by (simp only: viewing_fields id)
  have 5: "\<exists>m'. Update sample_toolkit sample_world (KeyMsg ''enter'')
                   (viewing ''seasons'' sample_show) sample_fs
                 = Inr (m', Some (FetchEpisodes defaultConfig ''s1''), sample_fs)
               \<and> currentView m' = ''episodes'' \<and> currentItem m' = sample_show \<and> err m' = None"
    using T [where m = "viewing ''seasons'' sample_show" and item = sample_show,
        THEN conjunct2, THEN conjunct2, THEN conjunct2, THEN conjunct2, rule_format, OF e]
    by (simp only: viewing_fields id)
  from a b c d e 1 2 3 4 5 show ?thesis
    apply -
    apply (elim conjE)
    apply (intro conjI)
    apply assumption+
    done
qed


text \<open>
  The claim as stated fails: on the sample model with a recorded error, choosing Movies in
  the main menu enters the Movies view and the error is still there.
\<close>

theorem enter_view_clears_error_counterexample:
  "currentView failed = ''main''
   \<and> SelectedItem (fst (list_Update sample_toolkit (KeyMsg ''enter'') (mainList failed)))
       = Some (mainItems ! 0)
   \<and> ItemTitle (mainItems ! 0) = ''Movies''
   \<and> err failed = Some (Error ''connection refused'')
   \<and> map_sum id (err \<circ> fst) (Update sample_toolkit sample_world (KeyMsg ''enter'') failed sample_fs)
       = Inr (Some (Error ''connection refused''))
   \<and> map_sum id (currentView \<circ> fst)
        (Update sample_toolkit sample_world (KeyMsg ''enter'') failed sample_fs)
       = Inr ''movies''"
  by (simp add: Update_enter updateView_def withFs_def updateMain_def isEnter_enter failed_fields
      sample_list_enter SelectedItem_def list_New_def mainItems_def)

subsection \<open>Selecting a record without id\<close>









subsection \<open>Playing from Episodes and Search\<close>

text \<open>
  In the Episodes view, and in the Search view while the query is empty, enter on a record
  with an id emits the play command for it and stays in the view. In the Search view with
  a non-empty query, enter returns at the first \<open>if\<close> with the search command.
\<close>

lemma episodes_enter_plays:
  assumes "currentView m = ''episodes''"
    and "SelectedItem (fst (list_Update tk (KeyMsg ''enter'') (episodesList m))) = Some item"
    and "ID item \<noteq> []"
  shows "\<exists>m'. Update tk w (KeyMsg ''enter'') m fs = Inr (m', Some (PlayMedia item), fs)
           \<and> currentView m' = ''episodes''"
  using assms
  by (cases "list_Update tk (KeyMsg ''enter'') (episodesList m)")
     (simp add: Update_enter updateView_def withFs_def updateEpisodes_def isEnter_enter)

lemma search_enter_plays_without_query:
  assumes "currentView m = ''search''" and "Value (searchInput m) = []"
    and "Items (searchList m) \<noteq> []"
    and "SelectedItem (fst (list_Update tk (KeyMsg ''enter'') (searchList m))) = Some item"
    and "ID item \<noteq> []"
  shows "\<exists>m'. Update tk w (KeyMsg ''enter'') m fs = Inr (m', Some (PlayMedia item), fs)
           \<and> currentView m' = ''search''"
  using assms
  by (cases "list_Update tk (KeyMsg ''enter'') (searchList m)")
     (simp add: Update_enter updateView_def withFs_def updateSearch_def isEnter_enter)

lemma search_enter_submits_query:
  assumes "currentView m = ''search''" and "Value (searchInput m) \<noteq> []"
  shows "Update tk w (KeyMsg ''enter'') m fs
           = Inr (m, Some (SearchMedia (config m) (Value (searchInput m))), fs)"
  using assms
  by (simp add: Update_enter updateView_def withFs_def updateSearch_def isEnter_enter)

lemma perform_PlayMedia:
  "perform w (PlayMedia item)
     = Some (case exec_Start w ''mpv'' [StreamURL item] of
               Some e \<Rightarrow> errorMsg (Errorf ''failed to start MPV: '' e)
             | None \<Rightarrow> NilMsg)"
  by (simp add: playMedia_def)

text \<open>
  Claim C4 at the input where the code departs from it: in the Search view with the query
  \<open>matrix\<close> still in the input and one result under the cursor, enter emits the search
  command again and no play command. The view stays \<open>search\<close>.
\<close>

theorem search_enter_with_query_does_not_play:
  "currentView searching = ''search''
   \<and> Value (searchInput searching) = ''matrix''
   \<and> Items (searchList searching) = [sample_movie]
   \<and> SelectedItem (fst (list_Update sample_toolkit (KeyMsg ''enter'') (searchList searching)))
       = Some sample_movie
   \<and> ID sample_movie = ''m1''
   \<and> Update sample_toolkit sample_world (KeyMsg ''enter'') searching sample_fs
       = Inr (searching, Some (SearchMedia defaultConfig ''matrix''), sample_fs)"
  by (simp add: searching_def viewing_fields Value_def SetValue_def Items_def list_New_def
      sample_list_enter SelectedItem_def sample_movie_def MediaItem_zero_def
      Update_enter updateView_def withFs_def updateSearch_def isEnter_enter)


section \<open>The order of episodes\<close>









section \<open>The configuration file\<close>


lemma configFile_neq_configDir: "filepath_Join [dir, ''config''] \<noteq> dir"
  by (simp add: filepath_Join_def)

lemma saveConfig_succeeds:
  assumes "home fs = Some h"
    and "filepath_Join [h, ''.config'', ''jellyfin-tui''] \<in> dirs fs
         \<or> (filepath_Join [h, ''.config'', ''jellyfin-tui''] \<notin> denied fs
            \<and> files fs (filepath_Join [h, ''.config'', ''jellyfin-tui'']) = None)"
    and "filepath_Join [filepath_Join [h, ''.config'', ''jellyfin-tui''], ''config'']
           \<notin> denied fs \<union> dirs fs"
    and "json_MarshalIndent w cfg = Inr d"
  shows "\<exists>fs'. saveConfig w cfg fs = (None, fs')"
  using assms configFile_neq_configDir [of "filepath_Join [h, ''.config'', ''jellyfin-tui'']"]
  by (auto simp: saveConfig_def os_UserHomeDir_def Let_def os_MkdirAll_def os_WriteFile_def)





end
